theory Spec2Isabelle
  imports Main "HOL-Library.Char_ord" "HOL-Library.List_Lexorder"
begin

section \<open>Data model\<close>

text \<open>
  \<^verbatim>\<open>State\<close> and \<^verbatim>\<open>TransitionType\<close> are Go string types. A Go string is a byte
  sequence and \<^verbatim>\<open>a < b\<close> on strings compares bytes lexicographically, a proper prefix
  being smaller: the order of \<^typ>\<open>char list\<close> given by \<open>Char_ord\<close> and
  \<open>List_Lexorder\<close>.
\<close>

type_synonym State = string
type_synonym TransitionType = string

record StateDoc =
  Name :: string
  Description :: string

record TransitionTypeDoc =
  Name :: string
  Description :: string

record TransitionRuleDoc =
  Name :: string
  Description :: string

record StateJSON =
  Name :: string
  Description :: string

record TransitionTypeJSON =
  Name :: string
  Description :: string

record TransitionRuleEdge =
  From :: string
  To :: string
  Description :: string
  Name :: string

record TransitionRuleNode =
  ID :: string
  Description :: string

record TransitionRuleJSON =
  TransitionType :: TransitionType
  SourceStates :: "string list"
  DestinationState :: string
  Name :: string
  Description :: string

record StateMachineJSON =
  TransitionRuleNodes :: "TransitionRuleNode list"
  TransitionRuleEdges :: "TransitionRuleEdge list"
  TransitionRules :: "TransitionRuleJSON list"
  States :: "string \<rightharpoonup> StateJSON"
  TransitionTypes :: "string \<rightharpoonup> TransitionTypeJSON"

text \<open>
  The entity interface of the README:
  \<^verbatim>\<open>type StateSwitch interface { State() State; SetState(state State) error }\<close>.
  An entity is a caller-owned mutable object; \<open>'e\<close> is the type of its contents, \<open>'x\<close> the
  type of the caller's error values. \<^verbatim>\<open>SetState\<close> returns the entity as it left it
  together with the error, if any.
\<close>

record ('e, 'x) StateSwitch =
  State :: "'e \<Rightarrow> State"
  SetState :: "State \<Rightarrow> 'e \<Rightarrow> 'e \<times> 'x option"

text \<open>
  A transition rule, with the fields the README and \<^verbatim>\<open>Export\<close> use. \<open>'a\<close> is the
  type of the transition arguments. \<^verbatim>\<open>Condition\<close>, \<^verbatim>\<open>Transition\<close> and
  \<^verbatim>\<open>PostTransition\<close> are optional (\<^verbatim>\<open>nil\<close> is \<open>None\<close>); an action receives the
  entity by reference, so it returns the entity as it left it together with its error.
\<close>

record ('e, 'a, 'x) TransitionRule =
  TransitionType :: TransitionType
  SourceStates :: "State list"
  DestinationState :: State
  Condition :: "('e \<Rightarrow> 'a \<Rightarrow> bool) option"
  Transition :: "('e \<Rightarrow> 'a \<Rightarrow> 'e \<times> 'x option) option"
  PostTransition :: "('e \<Rightarrow> 'a \<Rightarrow> 'e \<times> 'x option) option"
  Documentation :: TransitionRuleDoc

text \<open>
  The state machine: the rule store \<^verbatim>\<open>sm.transitionRules\<close>, a Go map from transition
  type to a slice of rules, and the two documentation maps of
  \<^verbatim>\<open>stateMachineDocumentation\<close>.
\<close>

record ('e, 'a, 'x) stateMachine =
  transitionRules :: "TransitionType \<rightharpoonup> ('e, 'a, 'x) TransitionRule list"
  stateDocs :: "State \<rightharpoonup> StateDoc"
  transitionTypeDocs :: "TransitionType \<rightharpoonup> TransitionTypeDoc"

section \<open>Documentation layer (statemachine\_doc.go)\<close>

definition DescribeState ::
  "State \<Rightarrow> StateDoc \<Rightarrow> ('e, 'a, 'x) stateMachine \<Rightarrow> ('e, 'a, 'x) stateMachine" where
  "DescribeState state stateDocumentation sm =
     sm\<lparr>stateDocs := (stateDocs sm)(state \<mapsto> stateDocumentation)\<rparr>"

definition DescribeTransitionType ::
  "TransitionType \<Rightarrow> TransitionTypeDoc \<Rightarrow> ('e, 'a, 'x) stateMachine
     \<Rightarrow> ('e, 'a, 'x) stateMachine" where
  "DescribeTransitionType transitionType transitionTypeDocumentation sm =
     sm\<lparr>transitionTypeDocs :=
          (transitionTypeDocs sm)(transitionType \<mapsto> transitionTypeDocumentation)\<rparr>"

definition initialStateDoc :: StateDoc where
  "initialStateDoc =
     \<lparr>StateDoc.Name = ''Initial'',
      StateDoc.Description = ''The initial state of the state machine. This is a synthetic state that is not actually part of the state machine. It appears in documentation when transition rules hold a single source state that is an empty string''\<rparr>"

definition initStateMachineDocumentation ::
  "('e, 'a, 'x) stateMachine \<Rightarrow> ('e, 'a, 'x) stateMachine" where
  "initStateMachineDocumentation sm =
     DescribeState ''initial'' initialStateDoc
       (sm\<lparr>stateDocs := Map.empty, transitionTypeDocs := Map.empty\<rparr>)"

text \<open>
  A Go \<^verbatim>\<open>range\<close> over a map visits every key once, in an order that the language
  leaves unspecified and that differs from one loop to the next. The order of each
  \<^verbatim>\<open>range\<close> is therefore an argument of the model: a list \<open>ks\<close> is a possible
  order of a map \<open>m\<close> when it holds the keys of \<open>m\<close>, each once.
\<close>

definition range_order :: "('k \<rightharpoonup> 'v) \<Rightarrow> 'k list \<Rightarrow> bool" where
  "range_order m ks \<longleftrightarrow> distinct ks \<and> set ks = dom m"

text \<open>Indexing the rule store: a missing key gives the nil slice.\<close>

definition rulesOf ::
  "('e, 'a, 'x) stateMachine \<Rightarrow> TransitionType \<Rightarrow> ('e, 'a, 'x) TransitionRule list" where
  "rulesOf sm transition =
     (case transitionRules sm transition of None \<Rightarrow> [] | Some rules \<Rightarrow> rules)"

text \<open>Lines 133 to 141: the local \<^verbatim>\<open>sourceStates\<close> of a rule.\<close>

definition sourceStatesOf :: "('e, 'a, 'x) TransitionRule \<Rightarrow> string list" where
  "sourceStatesOf rule =
     (if length (TransitionRule.SourceStates rule) = 1 \<and>
         TransitionRule.SourceStates rule ! 0 = ''''
      then [''initial'']
      else map (\<lambda>state. state) (TransitionRule.SourceStates rule))"

text \<open>
  \<^verbatim>\<open>Export\<close> runs on the pair of the receiver \<^verbatim>\<open>*sm\<close> and the local
  \<^verbatim>\<open>stateMachineJSON\<close>; every statement is a transformer of that pair.
  Lines 153 to 160: one edge appended per element of \<^verbatim>\<open>sourceStates\<close>.
\<close>

definition export_edge ::
  "TransitionType \<Rightarrow> ('e, 'a, 'x) TransitionRule \<Rightarrow> string
     \<Rightarrow> ('e, 'a, 'x) stateMachine \<times> StateMachineJSON
     \<Rightarrow> ('e, 'a, 'x) stateMachine \<times> StateMachineJSON" where
  "export_edge transition rule sourceState = (\<lambda>(sm, stateMachineJSON).
     (sm, stateMachineJSON\<lparr>TransitionRuleEdges :=
        TransitionRuleEdges stateMachineJSON @
          [\<lparr>TransitionRuleEdge.From = sourceState,
            TransitionRuleEdge.To = TransitionRule.DestinationState rule,
            TransitionRuleEdge.Description =
              TransitionRuleDoc.Description (Documentation rule),
            TransitionRuleEdge.Name = transition\<rparr>]\<rparr>))"

text \<open>Lines 132 to 161: the body of the loop over the rules of one transition type.\<close>

definition export_rule ::
  "TransitionType \<Rightarrow> ('e, 'a, 'x) TransitionRule
     \<Rightarrow> ('e, 'a, 'x) stateMachine \<times> StateMachineJSON
     \<Rightarrow> ('e, 'a, 'x) stateMachine \<times> StateMachineJSON" where
  "export_rule transition rule = (\<lambda>(sm, stateMachineJSON).
     let sourceStates = sourceStatesOf rule;
         destState = TransitionRule.DestinationState rule
     in fold (export_edge transition rule) sourceStates
          (sm, stateMachineJSON\<lparr>TransitionRules :=
             TransitionRules stateMachineJSON @
               [\<lparr>TransitionRuleJSON.TransitionType = transition,
                 TransitionRuleJSON.SourceStates = sourceStates,
                 TransitionRuleJSON.DestinationState = destState,
                 TransitionRuleJSON.Name = TransitionRuleDoc.Name (Documentation rule),
                 TransitionRuleJSON.Description =
                   TransitionRuleDoc.Description (Documentation rule)\<rparr>]\<rparr>))"

text \<open>Lines 131 to 162: the body of the loop over the sorted keys.\<close>

definition export_transition ::
  "TransitionType \<Rightarrow> ('e, 'a, 'x) stateMachine \<times> StateMachineJSON
     \<Rightarrow> ('e, 'a, 'x) stateMachine \<times> StateMachineJSON" where
  "export_transition transition = (\<lambda>(sm, stateMachineJSON).
     fold (export_rule transition) (rulesOf sm transition) (sm, stateMachineJSON))"

text \<open>Lines 165 to 177: the body of the loop over \<^verbatim>\<open>sm.stateDocs\<close>.\<close>

definition export_stateDoc ::
  "State \<Rightarrow> ('e, 'a, 'x) stateMachine \<times> StateMachineJSON
     \<Rightarrow> ('e, 'a, 'x) stateMachine \<times> StateMachineJSON" where
  "export_stateDoc stateID = (\<lambda>(sm, stateMachineJSON).
     case stateDocs sm stateID of
       None \<Rightarrow> (sm, stateMachineJSON)
     | Some stateDoc \<Rightarrow>
         (sm, stateMachineJSON
            \<lparr>States := (States stateMachineJSON)(stateID \<mapsto>
               \<lparr>StateJSON.Name = StateDoc.Name stateDoc,
                StateJSON.Description = StateDoc.Description stateDoc\<rparr>),
             TransitionRuleNodes := TransitionRuleNodes stateMachineJSON @
               [\<lparr>TransitionRuleNode.ID = StateDoc.Name stateDoc,
                 TransitionRuleNode.Description = StateDoc.Description stateDoc\<rparr>]\<rparr>))"

text \<open>Lines 180 to 185: the body of the loop over \<^verbatim>\<open>sm.transitionTypeDocs\<close>.\<close>

definition export_transitionTypeDoc ::
  "TransitionType \<Rightarrow> ('e, 'a, 'x) stateMachine \<times> StateMachineJSON
     \<Rightarrow> ('e, 'a, 'x) stateMachine \<times> StateMachineJSON" where
  "export_transitionTypeDoc transitionTypeID = (\<lambda>(sm, stateMachineJSON).
     case transitionTypeDocs sm transitionTypeID of
       None \<Rightarrow> (sm, stateMachineJSON)
     | Some transitionTypeDoc \<Rightarrow>
         (sm, stateMachineJSON
            \<lparr>TransitionTypes := (TransitionTypes stateMachineJSON)(transitionTypeID \<mapsto>
               \<lparr>TransitionTypeJSON.Name = TransitionTypeDoc.Name transitionTypeDoc,
                TransitionTypeJSON.Description =
                  TransitionTypeDoc.Description transitionTypeDoc\<rparr>)\<rparr>))"

text \<open>
  \<^verbatim>\<open>Export\<close>, lines 119 to 188. The arguments \<open>ks\<close>, \<open>ss\<close> and \<open>ts\<close> are the orders
  in which the three \<^verbatim>\<open>range\<close> loops visit \<^verbatim>\<open>sm.transitionRules\<close>,
  \<^verbatim>\<open>sm.stateDocs\<close> and \<^verbatim>\<open>sm.transitionTypeDocs\<close>. \<^verbatim>\<open>sort.Slice\<close> sorts the
  collected keys by \<^verbatim>\<open><\<close> on strings; the keys of a map are distinct, so the sorted
  slice does not depend on the sorting algorithm. The result is the pair of the machine
  after the call and the returned document.
\<close>

definition Export_run ::
  "TransitionType list \<Rightarrow> State list \<Rightarrow> TransitionType list
     \<Rightarrow> ('e, 'a, 'x) stateMachine \<Rightarrow> ('e, 'a, 'x) stateMachine \<times> StateMachineJSON" where
  "Export_run ks ss ts sm =
     (let keys = sort ks;
          s0 = (sm, \<lparr>TransitionRuleNodes = [], TransitionRuleEdges = [],
                     TransitionRules = [], States = Map.empty,
                     TransitionTypes = Map.empty\<rparr>);
          s1 = fold export_transition keys s0;
          s2 = (\<lambda>(sm, stateMachineJSON). (sm, stateMachineJSON\<lparr>States := Map.empty\<rparr>)) s1;
          s3 = fold export_stateDoc ss s2;
          s4 = (\<lambda>(sm, stateMachineJSON).
                  (sm, stateMachineJSON\<lparr>TransitionTypes := Map.empty\<rparr>)) s3
      in fold export_transitionTypeDoc ts s4)"

definition Export ::
  "TransitionType list \<Rightarrow> State list \<Rightarrow> TransitionType list
     \<Rightarrow> ('e, 'a, 'x) stateMachine \<Rightarrow> StateMachineJSON" where
  "Export ks ss ts sm = snd (Export_run ks ss ts sm)"

text \<open>
  \<^verbatim>\<open>AsJSON\<close>, lines 190 to 197. \<^verbatim>\<open>json.MarshalIndent\<close> belongs to the Go standard
  library; it is the argument \<open>marshalIndent\<close>, a function from the document to the
  bytes or to an error message.
\<close>

definition AsJSON ::
  "(StateMachineJSON \<Rightarrow> string + string)
     \<Rightarrow> TransitionType list \<Rightarrow> State list \<Rightarrow> TransitionType list
     \<Rightarrow> ('e, 'a, 'x) stateMachine \<Rightarrow> ('e, 'a, 'x) stateMachine \<times> (string + string)" where
  "AsJSON marshalIndent ks ss ts sm =
     (case Export_run ks ss ts sm of (sm', doc) \<Rightarrow>
        (sm', case marshalIndent doc of
                Inl err \<Rightarrow> Inl (''failed to marshal state machine to JSON: '' @ err)
              | Inr marshaled \<Rightarrow> Inr marshaled))"

subsection \<open>What the exported document is expected to hold\<close>

text \<open>The entry, the edges, the node and the map values that one rule or one documented
  state contributes to the document.\<close>

definition ruleJSON ::
  "TransitionType \<Rightarrow> ('e, 'a, 'x) TransitionRule \<Rightarrow> TransitionRuleJSON" where
  "ruleJSON transition rule =
     \<lparr>TransitionRuleJSON.TransitionType = transition,
      TransitionRuleJSON.SourceStates = sourceStatesOf rule,
      TransitionRuleJSON.DestinationState = TransitionRule.DestinationState rule,
      TransitionRuleJSON.Name = TransitionRuleDoc.Name (Documentation rule),
      TransitionRuleJSON.Description = TransitionRuleDoc.Description (Documentation rule)\<rparr>"

definition ruleEdge ::
  "TransitionType \<Rightarrow> ('e, 'a, 'x) TransitionRule \<Rightarrow> string \<Rightarrow> TransitionRuleEdge" where
  "ruleEdge transition rule sourceState =
     \<lparr>TransitionRuleEdge.From = sourceState,
      TransitionRuleEdge.To = TransitionRule.DestinationState rule,
      TransitionRuleEdge.Description = TransitionRuleDoc.Description (Documentation rule),
      TransitionRuleEdge.Name = transition\<rparr>"

definition stateJSON :: "StateDoc \<Rightarrow> StateJSON" where
  "stateJSON stateDoc =
     \<lparr>StateJSON.Name = StateDoc.Name stateDoc,
      StateJSON.Description = StateDoc.Description stateDoc\<rparr>"

definition stateNode :: "StateDoc \<Rightarrow> TransitionRuleNode" where
  "stateNode stateDoc =
     \<lparr>TransitionRuleNode.ID = StateDoc.Name stateDoc,
      TransitionRuleNode.Description = StateDoc.Description stateDoc\<rparr>"

definition transitionTypeJSON :: "TransitionTypeDoc \<Rightarrow> TransitionTypeJSON" where
  "transitionTypeJSON transitionTypeDoc =
     \<lparr>TransitionTypeJSON.Name = TransitionTypeDoc.Name transitionTypeDoc,
      TransitionTypeJSON.Description = TransitionTypeDoc.Description transitionTypeDoc\<rparr>"

text \<open>The rules of the store, each with the key it is stored under: the keys in ascending
  order, the rules of one key in the order of its slice.\<close>

definition storedRules ::
  "('e, 'a, 'x) stateMachine \<Rightarrow> (TransitionType \<times> ('e, 'a, 'x) TransitionRule) list" where
  "storedRules sm =
     concat (map (\<lambda>transition. map (Pair transition) (rulesOf sm transition))
       (sorted_list_of_set (dom (transitionRules sm))))"

text \<open>
  The machines a caller can hold: \<^verbatim>\<open>initStateMachineDocumentation\<close> has run at
  construction, and since then the documentation maps have been written by
  \<^verbatim>\<open>DescribeState\<close> and \<^verbatim>\<open>DescribeTransitionType\<close> only (no other function of the
  package assigns them); the rule store may have changed in any way.
\<close>

inductive constructed :: "('e, 'a, 'x) stateMachine \<Rightarrow> bool" where
  constructed_init: "constructed (initStateMachineDocumentation sm)"
| constructed_DescribeState:
    "constructed sm \<Longrightarrow> constructed (DescribeState state stateDocumentation sm)"
| constructed_DescribeTransitionType:
    "constructed sm \<Longrightarrow>
       constructed (DescribeTransitionType transitionType transitionTypeDocumentation sm)"
| constructed_rules:
    "constructed sm \<Longrightarrow> constructed (sm\<lparr>transitionRules := rules\<rparr>)"

section \<open>Rule store and engine\<close>

text \<open>
  Modelled from the spec: \<^verbatim>\<open>AddTransition\<close>, whose source file is not among the
  sources. Section 4.2: it appends the rule to the list keyed by the rule's transition
  type, preserving the order of the earlier entries, and validates nothing.
\<close>

definition AddTransition ::
  "('e, 'a, 'x) TransitionRule \<Rightarrow> ('e, 'a, 'x) stateMachine \<Rightarrow> ('e, 'a, 'x) stateMachine" where
  "AddTransition rule sm =
     sm\<lparr>transitionRules := (transitionRules sm)
          (TransitionRule.TransitionType rule \<mapsto>
             rulesOf sm (TransitionRule.TransitionType rule) @ [rule])\<rparr>"

text \<open>
  Modelled from the spec: \<^verbatim>\<open>NewStateMachine\<close>, whose source file is not among the
  sources. Section 3: the rule store and the documentation maps are created once, at
  construction; the store starts empty and the documentation is initialised by
  \<^verbatim>\<open>initStateMachineDocumentation\<close>.
\<close>

definition NewStateMachine :: "('e, 'a, 'x) stateMachine" where
  "NewStateMachine =
     initStateMachineDocumentation
       \<lparr>transitionRules = Map.empty, stateDocs = Map.empty, transitionTypeDocs = Map.empty\<rparr>"

text \<open>The registration calls, and the machine a sequence of them builds.\<close>

datatype ('e, 'a, 'x) registration_call =
  CallAddTransition "('e, 'a, 'x) TransitionRule"
| CallDescribeState State StateDoc
| CallDescribeTransitionType TransitionType TransitionTypeDoc

fun register_step ::
  "('e, 'a, 'x) registration_call \<Rightarrow> ('e, 'a, 'x) stateMachine \<Rightarrow> ('e, 'a, 'x) stateMachine" where
  "register_step (CallAddTransition rule) sm = AddTransition rule sm"
| "register_step (CallDescribeState state doc) sm = DescribeState state doc sm"
| "register_step (CallDescribeTransitionType transitionType doc) sm =
     DescribeTransitionType transitionType doc sm"

definition registration :: "('e, 'a, 'x) registration_call list \<Rightarrow> ('e, 'a, 'x) stateMachine" where
  "registration calls = fold register_step calls NewStateMachine"

text \<open>The rules that a sequence of registration calls registers for one transition type, in the
  order of the calls.\<close>

fun registered ::
  "TransitionType \<Rightarrow> ('e, 'a, 'x) registration_call list \<Rightarrow> ('e, 'a, 'x) TransitionRule list" where
  "registered transitionType [] = []"
| "registered transitionType (CallAddTransition rule # calls) =
     (if TransitionRule.TransitionType rule = transitionType
      then rule # registered transitionType calls
      else registered transitionType calls)"
| "registered transitionType (_ # calls) = registered transitionType calls"

text \<open>
  Modelled from the spec: the errors of \<^verbatim>\<open>Run\<close>, whose source file is not among the
  sources. Section 4.3 names four kinds of error, each retaining the transition type and
  the entity state that triggered it; the three that come from a caller's action or from
  \<^verbatim>\<open>SetState\<close> wrap that error.
\<close>

datatype 'x RunError =
  NoMatchingTransition TransitionType State
| TransitionActionFailed TransitionType State 'x
| StateAssignmentFailed TransitionType State 'x
| PostTransitionActionFailed TransitionType State 'x

text \<open>
  Modelled from the spec: the matching test of \<^verbatim>\<open>Run\<close>, whose source file is not
  among the sources. Section 4.3, step 3: a candidate matches if the state read in step 1
  is a member of its source states and its condition is absent or evaluates to true.
\<close>

definition isMatch ::
  "('e, 'a, 'x) TransitionRule \<Rightarrow> State \<Rightarrow> 'e \<Rightarrow> 'a \<Rightarrow> bool" where
  "isMatch rule S entity args \<longleftrightarrow>
     S \<in> set (TransitionRule.SourceStates rule) \<and>
     (case Condition rule of None \<Rightarrow> True | Some condition \<Rightarrow> condition entity args)"

text \<open>
  Modelled from the spec: the execution of the matched rule by \<^verbatim>\<open>Run\<close>, whose
  source file is not among the sources. Section 4.3, steps 5 to 8: the transition action,
  if any, and on its error nothing more; then \<^verbatim>\<open>SetState\<close> with the destination
  state, and on its error nothing more; then the post-transition action, if any, whose
  error is reported with the state change left in place.
\<close>

definition execute ::
  "('e, 'x) StateSwitch \<Rightarrow> TransitionType \<Rightarrow> State \<Rightarrow> ('e, 'a, 'x) TransitionRule
     \<Rightarrow> 'e \<Rightarrow> 'a \<Rightarrow> 'e \<times> 'x RunError option" where
  "execute stateSwitch transitionType S rule entity args =
     (case (case Transition rule of
              None \<Rightarrow> (entity, None)
            | Some transition \<Rightarrow> transition entity args) of
        (entity1, Some err) \<Rightarrow> (entity1, Some (TransitionActionFailed transitionType S err))
      | (entity1, None) \<Rightarrow>
          (case SetState stateSwitch (TransitionRule.DestinationState rule) entity1 of
             (entity2, Some err) \<Rightarrow>
               (entity2, Some (StateAssignmentFailed transitionType S err))
           | (entity2, None) \<Rightarrow>
               (case PostTransition rule of
                  None \<Rightarrow> (entity2, None)
                | Some postTransition \<Rightarrow>
                    (case postTransition entity2 args of
                       (entity3, Some err) \<Rightarrow>
                         (entity3, Some (PostTransitionActionFailed transitionType S err))
                     | (entity3, None) \<Rightarrow> (entity3, None)))))"

text \<open>
  Modelled from the spec: the scan of \<^verbatim>\<open>Run\<close>, whose source file is not among the
  sources. Section 4.3, steps 3 and 4: the candidates are tried in their order, the first
  that matches is executed and the scan stops; with no candidate left the call fails with
  \<^verbatim>\<open>NoMatchingTransition\<close>, carrying the transition type and the current state.
\<close>

fun scan ::
  "('e, 'x) StateSwitch \<Rightarrow> TransitionType \<Rightarrow> State \<Rightarrow> ('e, 'a, 'x) TransitionRule list
     \<Rightarrow> 'e \<Rightarrow> 'a \<Rightarrow> 'e \<times> 'x RunError option" where
  "scan stateSwitch transitionType S [] entity args =
     (entity, Some (NoMatchingTransition transitionType S))"
| "scan stateSwitch transitionType S (rule # rules) entity args =
     (if isMatch rule S entity args
      then execute stateSwitch transitionType S rule entity args
      else scan stateSwitch transitionType S rules entity args)"

text \<open>
  Modelled from the spec: \<^verbatim>\<open>Run\<close>, whose source file is not among the sources.
  Section 4.3, steps 1 and 2: read the entity's current state, fetch the candidates of
  the transition type (none at all gives \<^verbatim>\<open>NoMatchingTransition\<close>), then scan them.
  The result is the entity as the call left it and the error, if any.
\<close>

definition Run ::
  "('e, 'x) StateSwitch \<Rightarrow> ('e, 'a, 'x) stateMachine \<Rightarrow> TransitionType \<Rightarrow> 'e \<Rightarrow> 'a
     \<Rightarrow> 'e \<times> 'x RunError option" where
  "Run stateSwitch sm transitionType entity args =
     (let S = State stateSwitch entity
      in case transitionRules sm transitionType of
           None \<Rightarrow> (entity, Some (NoMatchingTransition transitionType S))
         | Some candidates \<Rightarrow> scan stateSwitch transitionType S candidates entity args)"

section \<open>A concrete machine\<close>

text \<open>
  A host in the style of the README's example: its state and, for the sake of observing
  which actions ran, the names of the actions called on it so far. The transition
  argument says whether the reported hardware is sufficient.
\<close>

record host =
  host_state :: State
  host_calls :: "string list"

definition hostSwitch :: "(host, string) StateSwitch" where
  "hostSwitch =
     \<lparr>State = host_state,
      SetState = (\<lambda>state h. (h\<lparr>host_state := state\<rparr>, None))\<rparr>"

text \<open>An action that records its name on the host and returns the given error.\<close>

definition action :: "string \<Rightarrow> string option \<Rightarrow> host \<Rightarrow> bool \<Rightarrow> host \<times> string option" where
  "action name err h args = (h\<lparr>host_calls := host_calls h @ [name]\<rparr>, err)"

definition ruleKnown :: "(host, bool, string) TransitionRule" where
  "ruleKnown =
     \<lparr>TransitionRule.TransitionType = ''SetHwInfo'',
      TransitionRule.SourceStates = [''discovering'', ''known''],
      TransitionRule.DestinationState = ''known'',
      Condition = Some (\<lambda>h sufficient. sufficient),
      Transition = Some (action ''SetHwInfo'' None),
      PostTransition = Some (action ''PostSetHwInfo'' None),
      Documentation = \<lparr>TransitionRuleDoc.Name = ''Move to known'',
                       TransitionRuleDoc.Description = ''good hardware''\<rparr>\<rparr>"

definition ruleFallback :: "(host, bool, string) TransitionRule" where
  "ruleFallback =
     \<lparr>TransitionRule.TransitionType = ''SetHwInfo'',
      TransitionRule.SourceStates = [''discovering'', ''known''],
      TransitionRule.DestinationState = ''insufficient'',
      Condition = None,
      Transition = Some (action ''Fallback'' None),
      PostTransition = Some (action ''PostFallback'' None),
      Documentation = \<lparr>TransitionRuleDoc.Name = ''Move to insufficient'',
                       TransitionRuleDoc.Description = ''any hardware''\<rparr>\<rparr>"

definition ruleCatchAll :: "(host, bool, string) TransitionRule" where
  "ruleCatchAll =
     \<lparr>TransitionRule.TransitionType = ''SetHwInfo'',
      TransitionRule.SourceStates = ['''', ''discovering''],
      TransitionRule.DestinationState = ''discovering'',
      Condition = None,
      Transition = Some (action ''CatchAll'' None),
      PostTransition = None,
      Documentation = \<lparr>TransitionRuleDoc.Name = ''Stay'',
                       TransitionRuleDoc.Description = ''anything else''\<rparr>\<rparr>"

definition ruleSkip :: "(host, bool, string) TransitionRule" where
  "ruleSkip =
     \<lparr>TransitionRule.TransitionType = ''Check'',
      TransitionRule.SourceStates = [''insufficient''],
      TransitionRule.DestinationState = ''known'',
      Condition = None,
      Transition = None,
      PostTransition = None,
      Documentation = \<lparr>TransitionRuleDoc.Name = ''Skip'',
                       TransitionRuleDoc.Description = ''only state changes''\<rparr>\<rparr>"

definition ruleRegisterNew :: "(host, bool, string) TransitionRule" where
  "ruleRegisterNew =
     \<lparr>TransitionRule.TransitionType = ''Register'',
      TransitionRule.SourceStates = [''''],
      TransitionRule.DestinationState = ''discovering'',
      Condition = None,
      Transition = None,
      PostTransition = Some (action ''RegisterNew'' None),
      Documentation = \<lparr>TransitionRuleDoc.Name = ''Initial registration'',
                       TransitionRuleDoc.Description = ''a new server''\<rparr>\<rparr>"

definition ruleRegisterAgain :: "(host, bool, string) TransitionRule" where
  "ruleRegisterAgain =
     \<lparr>TransitionRule.TransitionType = ''Register'',
      TransitionRule.SourceStates = [''discovering'', ''known''],
      TransitionRule.DestinationState = ''discovering'',
      Condition = None,
      Transition = None,
      PostTransition = Some (action ''RegisterAgain'' None),
      Documentation = \<lparr>TransitionRuleDoc.Name = ''Re-registration'',
                       TransitionRuleDoc.Description = ''a known server''\<rparr>\<rparr>"

definition ruleReject :: "(host, bool, string) TransitionRule" where
  "ruleReject =
     \<lparr>TransitionRule.TransitionType = ''Check'',
      TransitionRule.SourceStates = [''discovering''],
      TransitionRule.DestinationState = ''known'',
      Condition = Some (\<lambda>h sufficient. \<not> sufficient),
      Transition = Some (action ''Reject'' (Some ''boom'')),
      PostTransition = Some (action ''PostReject'' None),
      Documentation = \<lparr>TransitionRuleDoc.Name = ''Reject'',
                       TransitionRuleDoc.Description = ''the action fails''\<rparr>\<rparr>"

definition ruleNotify :: "(host, bool, string) TransitionRule" where
  "ruleNotify =
     \<lparr>TransitionRule.TransitionType = ''Check'',
      TransitionRule.SourceStates = [''discovering''],
      TransitionRule.DestinationState = ''known'',
      Condition = None,
      Transition = Some (action ''Notify'' None),
      PostTransition = Some (action ''PostNotify'' (Some ''late'')),
      Documentation = \<lparr>TransitionRuleDoc.Name = ''Notify'',
                       TransitionRuleDoc.Description = ''the post-action fails''\<rparr>\<rparr>"

definition knownDoc :: StateDoc where
  "knownDoc = \<lparr>StateDoc.Name = ''Known'', StateDoc.Description = ''hardware is known''\<rparr>"

definition demo_calls :: "(host, bool, string) registration_call list" where
  "demo_calls =
     [CallAddTransition ruleKnown,
      CallAddTransition ruleRegisterNew,
      CallDescribeState ''known'' knownDoc,
      CallAddTransition ruleSkip,
      CallAddTransition ruleFallback,
      CallAddTransition ruleRegisterAgain,
      CallDescribeTransitionType ''Register''
        \<lparr>TransitionTypeDoc.Name = ''Register'',
         TransitionTypeDoc.Description = ''a server registers''\<rparr>,
      CallAddTransition ruleReject,
      CallAddTransition ruleCatchAll,
      CallAddTransition ruleNotify]"

definition demo_sm :: "(host, bool, string) stateMachine" where
  "demo_sm = registration demo_calls"

text \<open>A machine with no rule and one state documented after construction.\<close>

definition documented_sm :: "(host, bool, string) stateMachine" where
  "documented_sm =
     DescribeState ''known'' knownDoc
       (initStateMachineDocumentation
          \<lparr>transitionRules = Map.empty, stateDocs = Map.empty,
           transitionTypeDocs = Map.empty\<rparr>)"

definition discovering_host :: host where
  "discovering_host = \<lparr>host_state = ''discovering'', host_calls = []\<rparr>"

section \<open>The export: what each loop computes\<close>

text \<open>Every loop of \<^verbatim>\<open>Export\<close> appends to the document and leaves the machine alone.\<close>


lemma fold_export_edge:
  "fold (export_edge t r) xs (sm, j) =
     (sm, j\<lparr>TransitionRuleEdges := TransitionRuleEdges j @ map (ruleEdge t r) xs\<rparr>)"
  by (induction xs arbitrary: j) (simp_all add: export_edge_def ruleEdge_def)

lemma export_rule_eq:
  "export_rule t r (sm, j) =
     (sm, j\<lparr>TransitionRules := TransitionRules j @ [ruleJSON t r],
            TransitionRuleEdges := TransitionRuleEdges j @ map (ruleEdge t r) (sourceStatesOf r)\<rparr>)"
  by (simp add: export_rule_def fold_export_edge ruleJSON_def Let_def)

lemma fold_export_rule:
  "fold (export_rule t) rs (sm, j) =
     (sm, j\<lparr>TransitionRules := TransitionRules j @ map (ruleJSON t) rs,
            TransitionRuleEdges := TransitionRuleEdges j @
              concat (map (\<lambda>r. map (ruleEdge t r) (sourceStatesOf r)) rs)\<rparr>)"
  by (induction rs arbitrary: j) (simp_all add: export_rule_eq)

lemma fold_export_transition:
  "fold export_transition ks (sm, j) =
     (sm, j\<lparr>TransitionRules := TransitionRules j @
              concat (map (\<lambda>t. map (ruleJSON t) (rulesOf sm t)) ks),
            TransitionRuleEdges := TransitionRuleEdges j @
              concat (map (\<lambda>t. concat (map (\<lambda>r. map (ruleEdge t r) (sourceStatesOf r))
                (rulesOf sm t))) ks)\<rparr>)"
  by (induction ks arbitrary: j) (simp_all add: export_transition_def fold_export_rule)

lemma export_stateDoc_eq:
  "export_stateDoc s (sm, j) =
     (case stateDocs sm s of None \<Rightarrow> (sm, j)
      | Some d \<Rightarrow> (sm, j\<lparr>States := (States j)(s \<mapsto> stateJSON d),
                          TransitionRuleNodes := TransitionRuleNodes j @ [stateNode d]\<rparr>))"
  by (simp add: export_stateDoc_def stateJSON_def stateNode_def split: option.split)

lemma fold_export_stateDoc:
  "fold export_stateDoc ss (sm, j) =
     (sm, j\<lparr>States := (\<lambda>k. if k \<in> set ss \<and> k \<in> dom (stateDocs sm)
                          then map_option stateJSON (stateDocs sm k) else States j k),
            TransitionRuleNodes := TransitionRuleNodes j @
              List.map_filter (\<lambda>s. map_option stateNode (stateDocs sm s)) ss\<rparr>)"
proof (induction ss arbitrary: j)
  case Nil
  show ?case by simp
next
  case (Cons s ss)
  show ?case
    by (cases "stateDocs sm s")
       (auto simp: export_stateDoc_eq Cons fun_eq_iff
          intro!: StateMachineJSON.equality)
qed

lemma export_transitionTypeDoc_eq:
  "export_transitionTypeDoc t (sm, j) =
     (case transitionTypeDocs sm t of None \<Rightarrow> (sm, j)
      | Some d \<Rightarrow> (sm, j\<lparr>TransitionTypes := (TransitionTypes j)(t \<mapsto> transitionTypeJSON d)\<rparr>))"
  by (simp add: export_transitionTypeDoc_def transitionTypeJSON_def split: option.split)

lemma fold_export_transitionTypeDoc:
  "fold export_transitionTypeDoc ts (sm, j) =
     (sm, j\<lparr>TransitionTypes := (\<lambda>k. if k \<in> set ts \<and> k \<in> dom (transitionTypeDocs sm)
                          then map_option transitionTypeJSON (transitionTypeDocs sm k)
                          else TransitionTypes j k)\<rparr>)"
proof (induction ts arbitrary: j)
  case Nil
  show ?case by simp
next
  case (Cons s ss)
  show ?case
    by (cases "transitionTypeDocs sm s")
       (auto simp: export_transitionTypeDoc_eq Cons fun_eq_iff
          intro!: StateMachineJSON.equality)
qed

lemma Export_run_eq:
  "Export_run ks ss ts sm =
     (sm, \<lparr>TransitionRuleNodes = List.map_filter (\<lambda>s. map_option stateNode (stateDocs sm s)) ss,
           TransitionRuleEdges =
             concat (map (\<lambda>t. concat (map (\<lambda>r. map (ruleEdge t r) (sourceStatesOf r))
                (rulesOf sm t))) (sort ks)),
           TransitionRules = concat (map (\<lambda>t. map (ruleJSON t) (rulesOf sm t)) (sort ks)),
           States = (\<lambda>k. if k \<in> set ss \<and> k \<in> dom (stateDocs sm)
                          then map_option stateJSON (stateDocs sm k) else None),
           TransitionTypes = (\<lambda>k. if k \<in> set ts \<and> k \<in> dom (transitionTypeDocs sm)
                          then map_option transitionTypeJSON (transitionTypeDocs sm k)
                          else None)\<rparr>)"
  by (simp add: Export_run_def Let_def fold_export_transition fold_export_stateDoc
        fold_export_transitionTypeDoc cong: if_cong)

text \<open>The sorted keys are the same for every order of the \<^verbatim>\<open>range\<close> that collects them.\<close>

lemma range_order_sort:
  "range_order m ks \<Longrightarrow> sort ks = sorted_list_of_set (dom m)"
  by (metis range_order_def sorted_list_of_set_sort_remdups distinct_remdups_id)

lemma map_filter_dom:
  "set ss \<subseteq> dom m \<Longrightarrow>
     List.map_filter (\<lambda>s. map_option f (m s)) ss = map (\<lambda>s. f (the (m s))) ss"
  by (induction ss) auto

lemma Export_TransitionRules:
  "TransitionRules (Export ks ss ts sm) =
     concat (map (\<lambda>t. map (ruleJSON t) (rulesOf sm t)) (sort ks))"
  by (simp add: Export_def Export_run_eq)

lemma Export_TransitionRuleEdges:
  "TransitionRuleEdges (Export ks ss ts sm) =
     concat (map (\<lambda>t. concat (map (\<lambda>r. map (ruleEdge t r) (sourceStatesOf r))
                (rulesOf sm t))) (sort ks))"
  by (simp add: Export_def Export_run_eq)

lemma Export_TransitionRuleNodes:
  "TransitionRuleNodes (Export ks ss ts sm) =
     List.map_filter (\<lambda>s. map_option stateNode (stateDocs sm s)) ss"
  by (simp add: Export_def Export_run_eq)

lemma Export_States:
  "States (Export ks ss ts sm) =
     (\<lambda>k. if k \<in> set ss \<and> k \<in> dom (stateDocs sm)
          then map_option stateJSON (stateDocs sm k) else None)"
  by (simp add: Export_def Export_run_eq)

lemma Export_TransitionTypes:
  "TransitionTypes (Export ks ss ts sm) =
     (\<lambda>k. if k \<in> set ts \<and> k \<in> dom (transitionTypeDocs sm)
          then map_option transitionTypeJSON (transitionTypeDocs sm k) else None)"
  by (simp add: Export_def Export_run_eq)

lemma sourceStatesOf_eq:
  "sourceStatesOf r =
     (if TransitionRule.SourceStates r = [''''] then [''initial'']
      else TransitionRule.SourceStates r)"
  by (cases "TransitionRule.SourceStates r")
     (auto simp: sourceStatesOf_def)

lemma length_sourceStatesOf:
  "length (sourceStatesOf r) = length (TransitionRule.SourceStates r)"
  by (simp add: sourceStatesOf_eq)

lemma sorted_concat_replicate:
  "sorted ks \<Longrightarrow> sorted (concat (map (\<lambda>t. replicate (n t) (t::'k::linorder)) ks))"
  by (induction ks) (auto simp: sorted_append)

lemma TransitionType_ruleJSON:
  "TransitionRuleJSON.TransitionType (ruleJSON t r) = t"
  by (simp add: ruleJSON_def)

lemma map_TransitionType_ruleJSON1:
  "map TransitionRuleJSON.TransitionType (map (ruleJSON t) rs) = replicate (length rs) t"
  by (induction rs) (simp_all add: TransitionType_ruleJSON)

lemma map_TransitionType_ruleJSON:
  "map TransitionRuleJSON.TransitionType (concat (map (\<lambda>t. map (ruleJSON t) (R t)) ks)) =
     concat (map (\<lambda>t. replicate (length (R t)) t) ks)"
  by (induction ks) (simp_all add: map_TransitionType_ruleJSON1 del: map_map)

lemma filter_TransitionType_ruleJSON:
  "distinct ks \<Longrightarrow>
     filter (\<lambda>j. TransitionRuleJSON.TransitionType j = t)
       (concat (map (\<lambda>k. map (ruleJSON k) (R k)) ks)) =
     (if t \<in> set ks then map (ruleJSON t) (R t) else [])"
proof (induction ks)
  case Nil
  show ?case by simp
next
  case (Cons k ks)
  have a: "filter (\<lambda>j. TransitionRuleJSON.TransitionType j = t) (map (ruleJSON k) (R k)) =
             (if k = t then map (ruleJSON k) (R k) else [])"
    by (induction "R k") (auto simp: TransitionType_ruleJSON filter_map comp_def)
  from Cons show ?case by (auto simp: a)
qed

lemma rulesOf_notin_dom: "t \<notin> dom (transitionRules sm) \<Longrightarrow> rulesOf sm t = []"
  by (auto simp: rulesOf_def split: option.splits)

lemma storedRules_sort:
  "range_order (transitionRules sm) ks \<Longrightarrow>
     storedRules sm = concat (map (\<lambda>t. map (Pair t) (rulesOf sm t)) (sort ks))"
  by (simp add: storedRules_def range_order_sort)

lemma Export_TransitionRules_stored:
  "range_order (transitionRules sm) ks \<Longrightarrow>
     TransitionRules (Export ks ss ts sm) = map (\<lambda>(t, r). ruleJSON t r) (storedRules sm)"
  by (simp add: Export_TransitionRules storedRules_sort map_concat comp_def)

lemma concat_map_keyed:
  "concat (map (\<lambda>(t, r). g t r) (concat (map (\<lambda>t. map (Pair t) (R t)) ks))) =
     concat (map (\<lambda>t. concat (map (g t) (R t))) ks)"
  by (induction ks) (simp_all add: comp_def)

lemma Export_TransitionRuleEdges_stored:
  "range_order (transitionRules sm) ks \<Longrightarrow>
     TransitionRuleEdges (Export ks ss ts sm) =
       concat (map (\<lambda>(t, r). map (ruleEdge t r) (sourceStatesOf r)) (storedRules sm))"
  by (simp add: Export_TransitionRuleEdges storedRules_sort concat_map_keyed)

lemma Export_TransitionRuleNodes_order:
  "range_order (stateDocs sm) ss \<Longrightarrow>
     TransitionRuleNodes (Export ks ss ts sm) = map (\<lambda>s. stateNode (the (stateDocs sm s))) ss"
  by (simp add: Export_TransitionRuleNodes map_filter_dom range_order_def)

lemma Export_States_order:
  "range_order (stateDocs sm) ss \<Longrightarrow>
     States (Export ks ss ts sm) = (\<lambda>k. map_option stateJSON (stateDocs sm k))"
  by (auto simp: Export_States range_order_def fun_eq_iff)

lemma Export_TransitionTypes_order:
  "range_order (transitionTypeDocs sm) ts \<Longrightarrow>
     TransitionTypes (Export ks ss ts sm) =
       (\<lambda>k. map_option transitionTypeJSON (transitionTypeDocs sm k))"
  by (auto simp: Export_TransitionTypes range_order_def fun_eq_iff)

lemma constructed_initial:
  "constructed sm \<Longrightarrow> stateDocs sm ''initial'' \<noteq> None"
  by (induction rule: constructed.induct)
     (simp_all add: initStateMachineDocumentation_def DescribeState_def
        DescribeTransitionType_def)

lemma Export_range_order_independent:
  assumes "range_order (transitionRules sm) ks" "range_order (transitionRules sm) ks'"
    and "range_order (stateDocs sm) ss" "range_order (stateDocs sm) ss'"
    and "range_order (transitionTypeDocs sm) ts" "range_order (transitionTypeDocs sm) ts'"
  shows "Export ks' ss' ts' sm =
           (Export ks ss ts sm)\<lparr>TransitionRuleNodes :=
              map (\<lambda>s. stateNode (the (stateDocs sm s))) ss'\<rparr>"
  by (rule StateMachineJSON.equality)
     (simp_all add: Export_TransitionRules_stored [OF assms(1)]
        Export_TransitionRules_stored [OF assms(2)]
        Export_TransitionRuleEdges_stored [OF assms(1)]
        Export_TransitionRuleEdges_stored [OF assms(2)]
        Export_States_order [OF assms(3)] Export_States_order [OF assms(4)]
        Export_TransitionTypes_order [OF assms(5)] Export_TransitionTypes_order [OF assms(6)]
        Export_TransitionRuleNodes_order [OF assms(4)])

section \<open>The export: claims\<close>

text \<open>
  Claim C10. \<^verbatim>\<open>Export\<close> and \<^verbatim>\<open>AsJSON\<close> are read-only: whatever the orders of the
  three \<^verbatim>\<open>range\<close> loops and whatever the marshaller returns, the machine after the call
  is the machine before it, so the rule store, the state documentation and the
  transition-type documentation are as they were.
\<close>

theorem Export_read_only:
  "fst (Export_run ks ss ts sm) = sm \<and> fst (AsJSON marshalIndent ks ss ts sm) = sm"
  by (simp add: AsJSON_def Export_run_eq)

text \<open>
  Claim C7. The \<^verbatim>\<open>transition_rules\<close> list of the exported document holds the rules of
  the store grouped by transition type: it is the list of the stored rules taken key by
  key in ascending order of the keys, its transition types are in ascending order, and
  the entries of one transition type are the rules stored for it, in the order of the
  store (the order of registration).
\<close>

theorem Export_TransitionRules_grouped:
  assumes "range_order (transitionRules sm) ks"
  shows "TransitionRules (Export ks ss ts sm) = map (\<lambda>(t, r). ruleJSON t r) (storedRules sm) \<and>
         sorted (map TransitionRuleJSON.TransitionType (TransitionRules (Export ks ss ts sm))) \<and>
         (\<forall>t. filter (\<lambda>j. TransitionRuleJSON.TransitionType j = t)
                (TransitionRules (Export ks ss ts sm)) = map (ruleJSON t) (rulesOf sm t))"
proof -
  have d: "distinct (sort ks)" "set (sort ks) = dom (transitionRules sm)"
    using assms by (simp_all add: range_order_def)
  have 1: "TransitionRules (Export ks ss ts sm) =
             map (\<lambda>(t, r). ruleJSON t r) (storedRules sm)"
    using assms by (rule Export_TransitionRules_stored)
  have 2: "sorted (map TransitionRuleJSON.TransitionType (TransitionRules (Export ks ss ts sm)))"
    by (simp add: Export_TransitionRules map_TransitionType_ruleJSON sorted_concat_replicate)
  have 3: "filter (\<lambda>j. TransitionRuleJSON.TransitionType j = t)
             (TransitionRules (Export ks ss ts sm)) = map (ruleJSON t) (rulesOf sm t)" for t
    using d by (simp add: Export_TransitionRules filter_TransitionType_ruleJSON
                  rulesOf_notin_dom del: set_sort distinct_sort)
  from 1 2 3 show ?thesis by blast
qed

text \<open>
  Claim C6. Entry by entry, the source states of the exported rules are those of the
  stored rules: the single token \<^verbatim>\<open>initial\<close> for a rule whose source states are the one
  empty string, and the rule's own source states, unchanged, for every other rule.
\<close>

theorem Export_SourceStates_rendering:
  assumes "range_order (transitionRules sm) ks"
  shows "map TransitionRuleJSON.SourceStates (TransitionRules (Export ks ss ts sm)) =
         map (\<lambda>(t, r). if TransitionRule.SourceStates r = [''''] then [''initial'']
                        else TransitionRule.SourceStates r) (storedRules sm)"
proof -
  have "TransitionRuleJSON.SourceStates (ruleJSON t r) =
          (if TransitionRule.SourceStates r = [''''] then [''initial'']
           else TransitionRule.SourceStates r)" for t and r :: "('a, 'b, 'c) TransitionRule"
    by (simp add: ruleJSON_def sourceStatesOf_eq)
  then show ?thesis
    by (simp add: Export_TransitionRules_stored [OF assms] case_prod_unfold)
qed

text \<open>
  Claim C8. The graph view of the exported document has one node per documented state
  (the nodes are the documentation of the keys of \<^verbatim>\<open>sm.stateDocs\<close>, one per key, so
  there are as many nodes as documented states) and, for each stored rule, one edge per
  source state of the rule (as rendered in the rule list), going to the rule's
  destination state and labelled with the transition type as its name and with the
  rule's description.
\<close>

theorem Export_graph:
  assumes "range_order (transitionRules sm) ks" and "range_order (stateDocs sm) ss"
  shows "TransitionRuleNodes (Export ks ss ts sm) =
           map (\<lambda>s. stateNode (the (stateDocs sm s))) ss \<and>
         length (TransitionRuleNodes (Export ks ss ts sm)) = card (dom (stateDocs sm)) \<and>
         TransitionRuleEdges (Export ks ss ts sm) =
           concat (map (\<lambda>(t, r). map (ruleEdge t r) (sourceStatesOf r)) (storedRules sm)) \<and>
         (\<forall>(t, r) \<in> set (storedRules sm).
            length (sourceStatesOf r) = length (TransitionRule.SourceStates r))"
proof -
  have "length ss = card (dom (stateDocs sm))"
    using assms(2) by (metis range_order_def distinct_card)
  then show ?thesis
    by (simp add: Export_TransitionRuleNodes_order [OF assms(2)]
          Export_TransitionRuleEdges_stored [OF assms(1)] length_sourceStatesOf
          case_prod_unfold)
qed

text \<open>
  Claim C9. The \<^verbatim>\<open>states\<close> map of the exported document always has the key
  \<^verbatim>\<open>initial\<close>: for every machine that was constructed and then documented in any way;
  right after construction, whatever the rule store, its value is the synthetic
  documentation; and after \<^verbatim>\<open>DescribeState\<close> for the state \<^verbatim>\<open>initial\<close> its value is
  the documentation given in that call.
\<close>

theorem Export_States_initial:
  fixes sm :: "('a, 'b, 'c) stateMachine"
  assumes "constructed sm" and "range_order (stateDocs sm) ss"
  shows "''initial'' \<in> dom (States (Export ks ss ts sm)) \<and>
         (\<forall>(sm0 :: ('a, 'b, 'c) stateMachine) ss0.
            range_order (stateDocs (initStateMachineDocumentation sm0)) ss0 \<longrightarrow>
            States (Export ks ss0 ts (initStateMachineDocumentation sm0)) ''initial'' =
              Some (stateJSON initialStateDoc)) \<and>
         (\<forall>doc ss1. range_order (stateDocs (DescribeState ''initial'' doc sm)) ss1 \<longrightarrow>
            States (Export ks ss1 ts (DescribeState ''initial'' doc sm)) ''initial'' =
              Some (stateJSON doc))"
proof (intro conjI allI impI)
  show "''initial'' \<in> dom (States (Export ks ss ts sm))"
    using constructed_initial [OF assms(1)]
    by (auto simp: Export_States_order [OF assms(2)])
next
  fix sm0 :: "('a, 'b, 'c) stateMachine" and ss0
  assume "range_order (stateDocs (initStateMachineDocumentation sm0)) ss0"
  then show "States (Export ks ss0 ts (initStateMachineDocumentation sm0)) ''initial'' =
               Some (stateJSON initialStateDoc)"
    by (simp add: Export_States_order)
       (simp add: initStateMachineDocumentation_def DescribeState_def)
next
  fix doc ss1
  assume "range_order (stateDocs (DescribeState ''initial'' doc sm)) ss1"
  then show "States (Export ks ss1 ts (DescribeState ''initial'' doc sm)) ''initial'' =
               Some (stateJSON doc)"
    by (simp add: Export_States_order) (simp add: DescribeState_def)
qed

text \<open>
  Claim C1. Exporting an unchanged machine twice gives equal documents. The list of
  nodes is appended in the order in which the \<^verbatim>\<open>range\<close> over \<^verbatim>\<open>sm.stateDocs\<close> visits
  the keys, and nothing sorts it. On the machine with the pre-registered state
  \<^verbatim>\<open>initial\<close> and one more documented state, the two orders of the two keys are both
  orders that a \<^verbatim>\<open>range\<close> may take, and they give two different documents.
\<close>

theorem Export_nodes_follow_range_order:
  "range_order (transitionRules documented_sm) [] \<and>
   range_order (transitionTypeDocs documented_sm) [] \<and>
   range_order (stateDocs documented_sm) [''initial'', ''known''] \<and>
   range_order (stateDocs documented_sm) [''known'', ''initial''] \<and>
   TransitionRuleNodes (Export [] [''initial'', ''known''] [] documented_sm) =
     [stateNode initialStateDoc, stateNode knownDoc] \<and>
   TransitionRuleNodes (Export [] [''known'', ''initial''] [] documented_sm) =
     [stateNode knownDoc, stateNode initialStateDoc] \<and>
   Export [] [''initial'', ''known''] [] documented_sm \<noteq>
     Export [] [''known'', ''initial''] [] documented_sm"
proof -
  have r: "range_order (transitionRules documented_sm) []"
     "range_order (transitionTypeDocs documented_sm) []"
     "range_order (stateDocs documented_sm) [''initial'', ''known'']"
     "range_order (stateDocs documented_sm) [''known'', ''initial'']"
    by (auto simp: range_order_def documented_sm_def initStateMachineDocumentation_def
          DescribeState_def)
  have a: "TransitionRuleNodes (Export [] [''initial'', ''known''] [] documented_sm) =
             [stateNode initialStateDoc, stateNode knownDoc]"
    by (simp add: Export_TransitionRuleNodes documented_sm_def
          initStateMachineDocumentation_def DescribeState_def)
  have b: "TransitionRuleNodes (Export [] [''known'', ''initial''] [] documented_sm) =
             [stateNode knownDoc, stateNode initialStateDoc]"
    by (simp add: Export_TransitionRuleNodes documented_sm_def
          initStateMachineDocumentation_def DescribeState_def)
  have "stateNode initialStateDoc \<noteq> stateNode knownDoc"
    by (simp add: stateNode_def initialStateDoc_def knownDoc_def)
  with a b have "Export [] [''initial'', ''known''] [] documented_sm \<noteq>
     Export [] [''known'', ''initial''] [] documented_sm"
    by (metis list.inject)
  with r a b show ?thesis by blast
qed

section \<open>The engine: scanning and registration\<close>

lemma scan_first_match:
  "\<forall>q \<in> set pre. \<not> isMatch q S e a \<Longrightarrow> isMatch r S e a \<Longrightarrow>
     scan sw tt S (pre @ r # post) e a = execute sw tt S r e a"
  by (induction pre) simp_all

lemma scan_no_match:
  "\<forall>q \<in> set rs. \<not> isMatch q S e a \<Longrightarrow>
     scan sw tt S rs e a = (e, Some (NoMatchingTransition tt S))"
  by (induction rs) simp_all

lemma Run_scan:
  "Run sw sm tt e a = scan sw tt (State sw e) (rulesOf sm tt) e a"
  by (simp add: Run_def rulesOf_def split: option.split)

lemma rulesOf_AddTransition:
  "rulesOf (AddTransition r sm) tt =
     (if TransitionRule.TransitionType r = tt then rulesOf sm tt @ [r] else rulesOf sm tt)"
  by (simp add: AddTransition_def rulesOf_def)

lemma rulesOf_DescribeState: "rulesOf (DescribeState s d sm) tt = rulesOf sm tt"
  by (simp add: DescribeState_def rulesOf_def)

lemma rulesOf_DescribeTransitionType:
  "rulesOf (DescribeTransitionType t d sm) tt = rulesOf sm tt"
  by (simp add: DescribeTransitionType_def rulesOf_def)

lemma rulesOf_fold_register_step:
  "rulesOf (fold register_step calls sm) tt = rulesOf sm tt @ registered tt calls"
proof (induction calls arbitrary: sm)
  case Nil
  show ?case by simp
next
  case (Cons c calls)
  show ?case
    by (cases c)
       (simp_all add: Cons rulesOf_AddTransition rulesOf_DescribeState
          rulesOf_DescribeTransitionType)
qed

lemma rulesOf_registration: "rulesOf (registration calls) tt = registered tt calls"
  by (simp add: registration_def rulesOf_fold_register_step)
     (simp add: NewStateMachine_def initStateMachineDocumentation_def DescribeState_def
        rulesOf_def)

section \<open>The engine: claims\<close>

text \<open>
  Claim C2. \<^verbatim>\<open>Run\<close> scans the rules registered for the transition type in the order
  of their registration and executes the first that matches (its source states contain
  the entity's current state and its condition is absent or true): when the candidates
  are \<open>pre @ r # post\<close>, no rule of \<open>pre\<close> matches and \<open>r\<close> does, the result of the
  call is the execution of \<open>r\<close>, with its transition action, its destination state and
  its post-transition action, whatever the later candidates \<open>post\<close> are, matching or not.
\<close>

theorem Run_first_match_wins:
  assumes "registered tt calls = pre @ r # post"
    and "\<forall>q \<in> set pre. \<not> isMatch q (State sw e) e a"
    and "isMatch r (State sw e) e a"
  shows "Run sw (registration calls) tt e a = execute sw tt (State sw e) r e a"
  using assms by (simp add: Run_scan rulesOf_registration scan_first_match)

text \<open>
  Claim C3. When the transition action of the matched rule returns an error, \<^verbatim>\<open>Run\<close>
  stops there: the entity is returned as that action left it, with neither
  \<^verbatim>\<open>SetState\<close> nor the post-transition action applied to it, so its state is the one
  it had unless the failing action changed it itself; the error is the action's error
  wrapped with the transition type and the state the entity was in.
\<close>

theorem Run_Transition_error:
  assumes "rulesOf sm tt = pre @ r # post"
    and "\<forall>q \<in> set pre. \<not> isMatch q (State sw e) e a"
    and "isMatch r (State sw e) e a"
    and "Transition r = Some transition"
    and "transition e a = (eT, Some err)"
  shows "Run sw sm tt e a = (eT, Some (TransitionActionFailed tt (State sw e) err)) \<and>
         (State sw eT = State sw e \<longrightarrow> State sw (fst (Run sw sm tt e a)) = State sw e)"
  using assms by (simp add: Run_scan scan_first_match execute_def)

text \<open>
  Claim C4. When the transition action (if any) and \<^verbatim>\<open>SetState\<close> succeed and the
  post-transition action returns an error, \<^verbatim>\<open>Run\<close> reports that error, wrapped, and
  returns the entity as the post-transition action left it, with the state assignment
  in place: nothing is rolled back, and the entity's state is the destination state
  whenever \<^verbatim>\<open>SetState\<close> stored it and the post-transition action did not touch it.
\<close>

theorem Run_PostTransition_error:
  assumes "rulesOf sm tt = pre @ r # post"
    and "\<forall>q \<in> set pre. \<not> isMatch q (State sw e) e a"
    and "isMatch r (State sw e) e a"
    and "(case Transition r of None \<Rightarrow> (e, None) | Some transition \<Rightarrow> transition e a) =
           (eT, None)"
    and "SetState sw (TransitionRule.DestinationState r) eT = (eS, None)"
    and "PostTransition r = Some postTransition"
    and "postTransition eS a = (eP, Some err)"
  shows "Run sw sm tt e a = (eP, Some (PostTransitionActionFailed tt (State sw e) err)) \<and>
         (State sw eS = TransitionRule.DestinationState r \<and> State sw eP = State sw eS \<longrightarrow>
            State sw (fst (Run sw sm tt e a)) = TransitionRule.DestinationState r)"
  using assms by (simp add: Run_scan scan_first_match execute_def)

text \<open>
  Claim C5. When no rule stored for the transition type matches the entity (in
  particular when no rule is stored for it at all), \<^verbatim>\<open>Run\<close> returns
  \<^verbatim>\<open>NoMatchingTransition\<close> carrying the transition type and the entity's current
  state, and returns the entity untouched, so its state is unchanged.
\<close>

theorem Run_no_match:
  assumes "\<forall>q \<in> set (rulesOf sm tt). \<not> isMatch q (State sw e) e a"
  shows "Run sw sm tt e a = (e, Some (NoMatchingTransition tt (State sw e))) \<and>
         State sw (fst (Run sw sm tt e a)) = State sw e"
  using assms by (simp add: Run_scan scan_no_match)

section \<open>The claims on the concrete machine\<close>

lemmas demo_rules =
  ruleKnown_def ruleFallback_def ruleCatchAll_def ruleSkip_def ruleRegisterNew_def
  ruleRegisterAgain_def ruleReject_def ruleNotify_def

lemmas demo_defs =
  demo_sm_def demo_calls_def registration_def NewStateMachine_def
  initStateMachineDocumentation_def AddTransition_def DescribeState_def
  DescribeTransitionType_def rulesOf_def demo_rules

lemma demo_registered:
  "registered ''SetHwInfo'' demo_calls = [ruleKnown, ruleFallback, ruleCatchAll]"
  "registered ''Register'' demo_calls = [ruleRegisterNew, ruleRegisterAgain]"
  "registered ''Check'' demo_calls = [ruleSkip, ruleReject, ruleNotify]"
  "registered ''Nothing'' demo_calls = []"
  by (simp_all add: demo_calls_def demo_rules)

lemma demo_rulesOf:
  "rulesOf demo_sm ''SetHwInfo'' = [ruleKnown, ruleFallback, ruleCatchAll]"
  "rulesOf demo_sm ''Register'' = [ruleRegisterNew, ruleRegisterAgain]"
  "rulesOf demo_sm ''Check'' = [ruleSkip, ruleReject, ruleNotify]"
  "rulesOf demo_sm ''Nothing'' = []"
  by (simp_all add: demo_sm_def rulesOf_registration demo_registered)

lemma demo_range_order_rules:
  "range_order (transitionRules demo_sm) [''SetHwInfo'', ''Register'', ''Check'']"
  by (auto simp: range_order_def demo_defs)

lemma demo_range_order_states:
  "range_order (stateDocs demo_sm) [''known'', ''initial'']"
  by (auto simp: range_order_def demo_defs)

lemma demo_stateDocs:
  "stateDocs demo_sm ''known'' = Some knownDoc"
  "stateDocs demo_sm ''initial'' = Some initialStateDoc"
  by (simp_all add: demo_defs)

lemma demo_storedRules:
  "storedRules demo_sm =
     [(''Check'', ruleSkip), (''Check'', ruleReject), (''Check'', ruleNotify),
      (''Register'', ruleRegisterNew), (''Register'', ruleRegisterAgain),
      (''SetHwInfo'', ruleKnown), (''SetHwInfo'', ruleFallback),
      (''SetHwInfo'', ruleCatchAll)]"
  by (simp add: storedRules_sort [OF demo_range_order_rules] demo_rulesOf)

lemma demo_sourceStatesOf:
  "sourceStatesOf ruleSkip = [''insufficient'']"
  "sourceStatesOf ruleReject = [''discovering'']"
  "sourceStatesOf ruleNotify = [''discovering'']"
  "sourceStatesOf ruleRegisterNew = [''initial'']"
  "sourceStatesOf ruleRegisterAgain = [''discovering'', ''known'']"
  "sourceStatesOf ruleKnown = [''discovering'', ''known'']"
  "sourceStatesOf ruleFallback = [''discovering'', ''known'']"
  "sourceStatesOf ruleCatchAll = ['''', ''discovering'']"
  by (simp_all add: sourceStatesOf_def demo_rules)

lemma discovering_host_State:
  "State hostSwitch discovering_host = ''discovering''"
  by (simp add: hostSwitch_def discovering_host_def)

text \<open>The rule list of the concrete machine, exported with the keys collected in the
  order of their first registration.\<close>

theorem Export_TransitionRules_grouped_witness:
  "range_order (transitionRules demo_sm) [''SetHwInfo'', ''Register'', ''Check''] \<and>
   TransitionRules
     (Export [''SetHwInfo'', ''Register'', ''Check''] [''known'', ''initial'']
        [''Register''] demo_sm) =
     [ruleJSON ''Check'' ruleSkip, ruleJSON ''Check'' ruleReject,
      ruleJSON ''Check'' ruleNotify, ruleJSON ''Register'' ruleRegisterNew,
      ruleJSON ''Register'' ruleRegisterAgain, ruleJSON ''SetHwInfo'' ruleKnown,
      ruleJSON ''SetHwInfo'' ruleFallback, ruleJSON ''SetHwInfo'' ruleCatchAll] \<and>
   sorted (map TransitionRuleJSON.TransitionType (TransitionRules
     (Export [''SetHwInfo'', ''Register'', ''Check''] [''known'', ''initial'']
        [''Register''] demo_sm))) \<and>
   filter (\<lambda>j. TransitionRuleJSON.TransitionType j = ''Register'') (TransitionRules
     (Export [''SetHwInfo'', ''Register'', ''Check''] [''known'', ''initial'']
        [''Register''] demo_sm)) =
     [ruleJSON ''Register'' ruleRegisterNew, ruleJSON ''Register'' ruleRegisterAgain]"
proof -
  note th = Export_TransitionRules_grouped
    [OF demo_range_order_rules, of "[''known'', ''initial'']" "[''Register'']"]
  from th have 1: "TransitionRules
     (Export [''SetHwInfo'', ''Register'', ''Check''] [''known'', ''initial'']
        [''Register''] demo_sm) =
     [ruleJSON ''Check'' ruleSkip, ruleJSON ''Check'' ruleReject,
      ruleJSON ''Check'' ruleNotify, ruleJSON ''Register'' ruleRegisterNew,
      ruleJSON ''Register'' ruleRegisterAgain, ruleJSON ''SetHwInfo'' ruleKnown,
      ruleJSON ''SetHwInfo'' ruleFallback, ruleJSON ''SetHwInfo'' ruleCatchAll]"
    by (simp only: demo_storedRules list.map prod.case)
  from th have 2: "sorted (map TransitionRuleJSON.TransitionType (TransitionRules
     (Export [''SetHwInfo'', ''Register'', ''Check''] [''known'', ''initial'']
        [''Register''] demo_sm)))"
    by (rule conjunct1 [OF conjunct2])
  from th have "filter (\<lambda>j. TransitionRuleJSON.TransitionType j = ''Register'')
     (TransitionRules
       (Export [''SetHwInfo'', ''Register'', ''Check''] [''known'', ''initial'']
          [''Register''] demo_sm)) = map (ruleJSON ''Register'') (rulesOf demo_sm ''Register'')"
    by blast
  then have 3: "filter (\<lambda>j. TransitionRuleJSON.TransitionType j = ''Register'')
     (TransitionRules
       (Export [''SetHwInfo'', ''Register'', ''Check''] [''known'', ''initial'']
          [''Register''] demo_sm)) =
     [ruleJSON ''Register'' ruleRegisterNew, ruleJSON ''Register'' ruleRegisterAgain]"
    by (simp only: demo_rulesOf list.map)
  from demo_range_order_rules 1 2 3 show ?thesis by blast
qed

text \<open>The source states of the exported rules of the concrete machine: the rule from
  the empty state alone shows \<^verbatim>\<open>initial\<close>, the rule from the empty state and another
  one shows both as they are.\<close>

theorem Export_SourceStates_rendering_witness:
  "range_order (transitionRules demo_sm) [''SetHwInfo'', ''Register'', ''Check''] \<and>
   map TransitionRuleJSON.SourceStates (TransitionRules
     (Export [''SetHwInfo'', ''Register'', ''Check''] [''known'', ''initial'']
        [''Register''] demo_sm)) =
     [[''insufficient''], [''discovering''], [''discovering''], [''initial''],
      [''discovering'', ''known''], [''discovering'', ''known''],
      [''discovering'', ''known''], ['''', ''discovering'']]"
proof -
  note th = Export_SourceStates_rendering
    [OF demo_range_order_rules, of "[''known'', ''initial'']" "[''Register'']"]
  have "map (\<lambda>(t, r). if TransitionRule.SourceStates r = [''''] then [''initial'']
                        else TransitionRule.SourceStates r) (storedRules demo_sm) =
     [[''insufficient''], [''discovering''], [''discovering''], [''initial''],
      [''discovering'', ''known''], [''discovering'', ''known''],
      [''discovering'', ''known''], ['''', ''discovering'']]"
    by (simp add: demo_storedRules demo_rules)
  with th demo_range_order_rules show ?thesis by (simp only: simp_thms)
qed

text \<open>The graph of the concrete machine: two documented states, two nodes; one edge per
  source state of each rule.\<close>

theorem Export_graph_witness:
  "range_order (transitionRules demo_sm) [''SetHwInfo'', ''Register'', ''Check''] \<and>
   range_order (stateDocs demo_sm) [''known'', ''initial''] \<and>
   TransitionRuleNodes
     (Export [''SetHwInfo'', ''Register'', ''Check''] [''known'', ''initial'']
        [''Register''] demo_sm) = [stateNode knownDoc, stateNode initialStateDoc] \<and>
   card (dom (stateDocs demo_sm)) = 2 \<and>
   TransitionRuleEdges
     (Export [''SetHwInfo'', ''Register'', ''Check''] [''known'', ''initial'']
        [''Register''] demo_sm) =
     [ruleEdge ''Check'' ruleSkip ''insufficient'',
      ruleEdge ''Check'' ruleReject ''discovering'',
      ruleEdge ''Check'' ruleNotify ''discovering'',
      ruleEdge ''Register'' ruleRegisterNew ''initial'',
      ruleEdge ''Register'' ruleRegisterAgain ''discovering'',
      ruleEdge ''Register'' ruleRegisterAgain ''known'',
      ruleEdge ''SetHwInfo'' ruleKnown ''discovering'',
      ruleEdge ''SetHwInfo'' ruleKnown ''known'',
      ruleEdge ''SetHwInfo'' ruleFallback ''discovering'',
      ruleEdge ''SetHwInfo'' ruleFallback ''known'',
      ruleEdge ''SetHwInfo'' ruleCatchAll '''',
      ruleEdge ''SetHwInfo'' ruleCatchAll ''discovering'']"
proof -
  note th = Export_graph
    [OF demo_range_order_rules demo_range_order_states, of "[''Register'']"]
  from th have 1: "TransitionRuleNodes
     (Export [''SetHwInfo'', ''Register'', ''Check''] [''known'', ''initial'']
        [''Register''] demo_sm) = [stateNode knownDoc, stateNode initialStateDoc]"
    by (simp add: demo_stateDocs)
  from th have "length (TransitionRuleNodes
     (Export [''SetHwInfo'', ''Register'', ''Check''] [''known'', ''initial'']
        [''Register''] demo_sm)) = card (dom (stateDocs demo_sm))"
    by blast
  with 1 have 2: "card (dom (stateDocs demo_sm)) = 2" by simp
  from th have "TransitionRuleEdges
     (Export [''SetHwInfo'', ''Register'', ''Check''] [''known'', ''initial'']
        [''Register''] demo_sm) =
     concat (map (\<lambda>(t, r). map (ruleEdge t r) (sourceStatesOf r)) (storedRules demo_sm))"
    by blast
  then have 3: "TransitionRuleEdges
     (Export [''SetHwInfo'', ''Register'', ''Check''] [''known'', ''initial'']
        [''Register''] demo_sm) =
     [ruleEdge ''Check'' ruleSkip ''insufficient'',
      ruleEdge ''Check'' ruleReject ''discovering'',
      ruleEdge ''Check'' ruleNotify ''discovering'',
      ruleEdge ''Register'' ruleRegisterNew ''initial'',
      ruleEdge ''Register'' ruleRegisterAgain ''discovering'',
      ruleEdge ''Register'' ruleRegisterAgain ''known'',
      ruleEdge ''SetHwInfo'' ruleKnown ''discovering'',
      ruleEdge ''SetHwInfo'' ruleKnown ''known'',
      ruleEdge ''SetHwInfo'' ruleFallback ''discovering'',
      ruleEdge ''SetHwInfo'' ruleFallback ''known'',
      ruleEdge ''SetHwInfo'' ruleCatchAll '''',
      ruleEdge ''SetHwInfo'' ruleCatchAll ''discovering'']"
    by (simp add: demo_storedRules demo_sourceStatesOf)
  from demo_range_order_rules demo_range_order_states 1 2 3 show ?thesis by blast
qed

text \<open>The key \<^verbatim>\<open>initial\<close> on a machine with one more documented state, on a fresh
  machine, and after the caller has documented \<^verbatim>\<open>initial\<close> itself.\<close>

theorem Export_States_initial_witness:
  "constructed documented_sm \<and>
   range_order (stateDocs documented_sm) [''initial'', ''known''] \<and>
   ''initial'' \<in> dom (States (Export [] [''initial'', ''known''] [] documented_sm)) \<and>
   States (Export [] [''initial''] []
     (initStateMachineDocumentation
        (\<lparr>transitionRules = Map.empty, stateDocs = Map.empty,
          transitionTypeDocs = Map.empty\<rparr> :: (host, bool, string) stateMachine)))
     ''initial'' = Some (stateJSON initialStateDoc) \<and>
   States (Export [] [''initial'', ''known''] []
     (DescribeState ''initial'' knownDoc documented_sm)) ''initial'' = Some (stateJSON knownDoc)"
proof -
  have c: "constructed documented_sm"
    unfolding documented_sm_def
    by (rule constructed_DescribeState) (rule constructed_init)
  have r: "range_order (stateDocs documented_sm) [''initial'', ''known'']"
    by (auto simp: range_order_def documented_sm_def initStateMachineDocumentation_def
          DescribeState_def)
  have r0: "range_order (stateDocs (initStateMachineDocumentation
        (\<lparr>transitionRules = Map.empty, stateDocs = Map.empty,
          transitionTypeDocs = Map.empty\<rparr> :: (host, bool, string) stateMachine)))
        [''initial'']"
    by (auto simp: range_order_def initStateMachineDocumentation_def DescribeState_def)
  have r1: "range_order (stateDocs (DescribeState ''initial'' knownDoc documented_sm))
        [''initial'', ''known'']"
    by (auto simp: range_order_def documented_sm_def initStateMachineDocumentation_def
          DescribeState_def)
  note th = Export_States_initial [OF c r, of "[]" "[]"]
  from th have 1: "''initial'' \<in> dom (States (Export [] [''initial'', ''known''] [] documented_sm))"
    by (rule conjunct1)
  from th r0 have 2: "States (Export [] [''initial''] []
     (initStateMachineDocumentation
        (\<lparr>transitionRules = Map.empty, stateDocs = Map.empty,
          transitionTypeDocs = Map.empty\<rparr> :: (host, bool, string) stateMachine)))
     ''initial'' = Some (stateJSON initialStateDoc)"
    by blast
  from th r1 have 3: "States (Export [] [''initial'', ''known''] []
     (DescribeState ''initial'' knownDoc documented_sm)) ''initial'' = Some (stateJSON knownDoc)"
    by blast
  from c r 1 2 3 show ?thesis by blast
qed

text \<open>Insufficient hardware reported by a discovering host: the first rule for
  \<^verbatim>\<open>SetHwInfo\<close> does not match, the second and the third both do, and the second is
  the one that runs.\<close>

theorem Run_first_match_wins_witness:
  "registered ''SetHwInfo'' demo_calls = [ruleKnown] @ ruleFallback # [ruleCatchAll] \<and>
   \<not> isMatch ruleKnown ''discovering'' discovering_host False \<and>
   isMatch ruleFallback ''discovering'' discovering_host False \<and>
   isMatch ruleCatchAll ''discovering'' discovering_host False \<and>
   Run hostSwitch (registration demo_calls) ''SetHwInfo'' discovering_host False =
     (\<lparr>host_state = ''insufficient'', host_calls = [''Fallback'', ''PostFallback'']\<rparr>, None)"
proof -
  note s = discovering_host_State
  have c: "registered ''SetHwInfo'' demo_calls = [ruleKnown] @ ruleFallback # [ruleCatchAll]"
    by (simp add: demo_registered)
  have m: "\<not> isMatch ruleKnown ''discovering'' discovering_host False"
    "isMatch ruleFallback ''discovering'' discovering_host False"
    "isMatch ruleCatchAll ''discovering'' discovering_host False"
    by (simp_all add: isMatch_def demo_rules)
  have "Run hostSwitch (registration demo_calls) ''SetHwInfo'' discovering_host False =
          execute hostSwitch ''SetHwInfo'' (State hostSwitch discovering_host) ruleFallback
            discovering_host False"
    by (rule Run_first_match_wins [OF c]) (simp_all add: s m)
  also have "\<dots> =
      (\<lparr>host_state = ''insufficient'', host_calls = [''Fallback'', ''PostFallback'']\<rparr>, None)"
    by (simp add: execute_def ruleFallback_def action_def hostSwitch_def discovering_host_def)
  finally show ?thesis using c m by blast
qed

text \<open>A check of a discovering host with insufficient hardware: the matched rule's
  transition action fails; only that action has been called and the host is still
  discovering.\<close>

theorem Run_Transition_error_witness:
  "Run hostSwitch demo_sm ''Check'' discovering_host False =
     (\<lparr>host_state = ''discovering'', host_calls = [''Reject'']\<rparr>,
      Some (TransitionActionFailed ''Check'' ''discovering'' ''boom'')) \<and>
   State hostSwitch (fst (Run hostSwitch demo_sm ''Check'' discovering_host False)) =
     State hostSwitch discovering_host"
proof -
  note s = discovering_host_State
  have c: "rulesOf demo_sm ''Check'' = [ruleSkip] @ ruleReject # [ruleNotify]"
    by (simp add: demo_rulesOf)
  have n: "\<forall>q \<in> set [ruleSkip].
             \<not> isMatch q (State hostSwitch discovering_host) discovering_host False"
    by (simp add: s isMatch_def ruleSkip_def)
  have m: "isMatch ruleReject (State hostSwitch discovering_host) discovering_host False"
    by (simp add: s isMatch_def ruleReject_def)
  have t: "Transition ruleReject = Some (action ''Reject'' (Some ''boom''))"
    by (simp add: ruleReject_def)
  have r: "action ''Reject'' (Some ''boom'') discovering_host False =
             (\<lparr>host_state = ''discovering'', host_calls = [''Reject'']\<rparr>, Some ''boom'')"
    by (simp add: action_def discovering_host_def)
  note run = Run_Transition_error
    [where sw = hostSwitch and e = discovering_host and a = False
       and transition = "action ''Reject'' (Some ''boom'')", OF c n m t r]
  have 1: "Run hostSwitch demo_sm ''Check'' discovering_host False =
     (\<lparr>host_state = ''discovering'', host_calls = [''Reject'']\<rparr>,
      Some (TransitionActionFailed ''Check'' ''discovering'' ''boom''))"
    using run [THEN conjunct1] by (simp only: s)
  have "State hostSwitch \<lparr>host_state = ''discovering'', host_calls = [''Reject'']\<rparr> =
          State hostSwitch discovering_host"
    by (simp add: hostSwitch_def discovering_host_def)
  with run [THEN conjunct2]
  have 2: "State hostSwitch (fst (Run hostSwitch demo_sm ''Check'' discovering_host False)) =
             State hostSwitch discovering_host"
    by (rule mp)
  from 1 2 show ?thesis by (rule conjI)
qed

text \<open>A check of a discovering host with sufficient hardware: the third rule matches,
  its post-transition action fails, and the host is known all the same.\<close>

theorem Run_PostTransition_error_witness:
  "Run hostSwitch demo_sm ''Check'' discovering_host True =
     (\<lparr>host_state = ''known'', host_calls = [''Notify'', ''PostNotify'']\<rparr>,
      Some (PostTransitionActionFailed ''Check'' ''discovering'' ''late'')) \<and>
   State hostSwitch (fst (Run hostSwitch demo_sm ''Check'' discovering_host True)) =
     TransitionRule.DestinationState ruleNotify"
proof -
  note s = discovering_host_State
  have c: "rulesOf demo_sm ''Check'' = [ruleSkip, ruleReject] @ ruleNotify # []"
    by (simp add: demo_rulesOf)
  have n: "\<forall>q \<in> set [ruleSkip, ruleReject].
             \<not> isMatch q (State hostSwitch discovering_host) discovering_host True"
    by (simp add: s isMatch_def ruleSkip_def ruleReject_def)
  have m: "isMatch ruleNotify (State hostSwitch discovering_host) discovering_host True"
    by (simp add: s isMatch_def ruleNotify_def)
  have t: "(case Transition ruleNotify of None \<Rightarrow> (discovering_host, None)
            | Some transition \<Rightarrow> transition discovering_host True) =
           (\<lparr>host_state = ''discovering'', host_calls = [''Notify'']\<rparr>, None)"
    by (simp add: ruleNotify_def action_def discovering_host_def)
  have a: "SetState hostSwitch (TransitionRule.DestinationState ruleNotify)
             \<lparr>host_state = ''discovering'', host_calls = [''Notify'']\<rparr> =
           (\<lparr>host_state = ''known'', host_calls = [''Notify'']\<rparr>, None)"
    by (simp add: ruleNotify_def hostSwitch_def)
  have p: "PostTransition ruleNotify = Some (action ''PostNotify'' (Some ''late''))"
    by (simp add: ruleNotify_def)
  have r: "action ''PostNotify'' (Some ''late'')
             \<lparr>host_state = ''known'', host_calls = [''Notify'']\<rparr> True =
           (\<lparr>host_state = ''known'', host_calls = [''Notify'', ''PostNotify'']\<rparr>, Some ''late'')"
    by (simp add: action_def)
  have d: "State hostSwitch \<lparr>host_state = ''known'', host_calls = [''Notify'']\<rparr> =
             TransitionRule.DestinationState ruleNotify"
     "State hostSwitch \<lparr>host_state = ''known'', host_calls = [''Notify'', ''PostNotify'']\<rparr> =
        State hostSwitch \<lparr>host_state = ''known'', host_calls = [''Notify'']\<rparr>"
    by (simp_all add: hostSwitch_def ruleNotify_def)
  note run = Run_PostTransition_error
    [where sw = hostSwitch and e = discovering_host and a = True
       and postTransition = "action ''PostNotify'' (Some ''late'')"
       and eS = "\<lparr>host_state = ''known'', host_calls = [''Notify'']\<rparr>",
     OF c n m t a p r]
  have 1: "Run hostSwitch demo_sm ''Check'' discovering_host True =
     (\<lparr>host_state = ''known'', host_calls = [''Notify'', ''PostNotify'']\<rparr>,
      Some (PostTransitionActionFailed ''Check'' ''discovering'' ''late''))"
    using run [THEN conjunct1] by (simp only: s)
  from d run [THEN conjunct2]
  have 2: "State hostSwitch (fst (Run hostSwitch demo_sm ''Check'' discovering_host True)) =
             TransitionRule.DestinationState ruleNotify"
    by blast
  from 1 2 show ?thesis by (rule conjI)
qed

text \<open>A registration of a host in a state that no rule for \<^verbatim>\<open>Register\<close> starts from,
  and a transition type with no rule at all.\<close>

theorem Run_no_match_witness:
  "Run hostSwitch demo_sm ''Register'' (discovering_host\<lparr>host_state := ''insufficient''\<rparr>) False =
     (discovering_host\<lparr>host_state := ''insufficient''\<rparr>,
      Some (NoMatchingTransition ''Register'' ''insufficient'')) \<and>
   Run hostSwitch demo_sm ''Nothing'' discovering_host False =
     (discovering_host, Some (NoMatchingTransition ''Nothing'' ''discovering''))"
proof -
  have s: "State hostSwitch (discovering_host\<lparr>host_state := ''insufficient''\<rparr>) = ''insufficient''"
    "State hostSwitch discovering_host = ''discovering''"
    by (simp_all add: hostSwitch_def discovering_host_def)
  have 1: "\<forall>q \<in> set (rulesOf demo_sm ''Register'').
             \<not> isMatch q (State hostSwitch (discovering_host\<lparr>host_state := ''insufficient''\<rparr>))
                 (discovering_host\<lparr>host_state := ''insufficient''\<rparr>) False"
    by (simp add: demo_rulesOf s isMatch_def ruleRegisterNew_def ruleRegisterAgain_def)
  have 2: "\<forall>q \<in> set (rulesOf demo_sm ''Nothing'').
             \<not> isMatch q (State hostSwitch discovering_host) discovering_host False"
    by (simp add: demo_rulesOf)
  from Run_no_match [OF 1] Run_no_match [OF 2] show ?thesis
    by (simp add: s)
qed

end
